theory Spec2Isabelle
  imports Complex_Main "HOL-Library.Multiset" "HOL-Library.Option_ord"
begin

section \<open>The relational store seen through psycopg2 (analysis.py)\<close>

text \<open>
  Python exceptions that the modelled functions can raise. \<open>UnboundLocalError\<close> is a
  subclass of \<open>NameError\<close>; \<open>ProgrammingError\<close> and \<open>DatabaseError\<close> are subclasses of
  \<open>psycopg2.Error\<close>.
\<close>

datatype py_error =
    UnboundLocalError string
  | ProgrammingError string
  | DatabaseError string
  | AttributeError string
  | FileNotFoundError string
  | ValueError string

fun is_NameError :: "py_error \<Rightarrow> bool" where
  "is_NameError (UnboundLocalError _) = True"
| "is_NameError _ = False"

fun is_psycopg2_Error :: "py_error \<Rightarrow> bool" where
  "is_psycopg2_Error (ProgrammingError _) = True"
| "is_psycopg2_Error (DatabaseError _) = True"
| "is_psycopg2_Error _ = False"

type_synonym row = "string list"

text \<open>
  The statements the loader sends, by shape. The f-strings of the source are
  \<open>CREATE SCHEMA IF NOT EXISTS {s}\<close>, \<open>CREATE TABLE IF NOT EXISTS {s}.{t} (columns)\<close>,
  \<open>SELECT 1 FROM {s}.{t}\<close> and \<open>COPY {s}.{t} FROM stdin WITH CSV HEADER DELIMITER as ','\<close>.
\<close>

datatype sql =
    CreateSchemaIfNotExists string
  | CreateTableIfNotExists string string "(string \<times> string) list"
  | SelectOneFrom string string
  | CopyFromStdin string string

text \<open>
  The server and the session: the schemas, the declared columns and the rows of each
  table (\<open>None\<close>: no such table), whether the session's transaction is in the
  aborted state, how many bulk transfers were started (\<open>copy_expert\<close> calls whose
  \<open>COPY\<close> statement the server accepted, so that the data was sent), and what the
  program printed. The server's check of a row of a transfer against the declared
  columns of the table (the number of fields, and each field against the type of its
  column) is not part of the repository: it is the field \<open>row_ok\<close>.
\<close>

record world =
  schemas :: "string list"
  tables :: "string \<times> string \<Rightarrow> ((string \<times> string) list \<times> row list) option"
  aborted :: bool
  copies :: nat
  out :: "string list"
  row_ok :: "(string \<times> string) list \<Rightarrow> row \<Rightarrow> bool"

datatype connection = PgConn

text \<open>A client-side cursor: the result set of its last statement, if it had one.\<close>

datatype cursor = Cursor "row list option"

definition print :: "string \<Rightarrow> world \<Rightarrow> world" where
  "print msg w = w\<lparr>out := out w @ [msg]\<rparr>"

text \<open>
  \<open>cur.execute(query)\<close>: the server's answer. A failing statement raises a
  \<open>psycopg2.Error\<close> and leaves the transaction aborted; in an aborted transaction
  every statement fails.
\<close>

fun pg_run :: "sql \<Rightarrow> world \<Rightarrow> string + (world \<times> row list option)" where
  "pg_run (CreateSchemaIfNotExists s) w =
     Inr (if s \<in> set (schemas w) then w else w\<lparr>schemas := schemas w @ [s]\<rparr>, None)"
| "pg_run (CreateTableIfNotExists s t cols) w =
     (if s \<notin> set (schemas w) then Inl ''schema does not exist''
      else case tables w (s, t) of
             Some _ \<Rightarrow> Inr (w, None)
           | None \<Rightarrow> Inr (w\<lparr>tables := (tables w)((s, t) \<mapsto> (cols, []))\<rparr>, None))"
| "pg_run (SelectOneFrom s t) w =
     (case tables w (s, t) of
        None \<Rightarrow> Inl ''relation does not exist''
      | Some (cols, rs) \<Rightarrow> Inr (w, Some (map (\<lambda>_. [''1'']) rs)))"
| "pg_run (CopyFromStdin s t) w = Inl ''COPY FROM stdin needs copy_expert''"

definition cur_execute :: "sql \<Rightarrow> world \<Rightarrow> py_error + (world \<times> cursor)" where
  "cur_execute q w =
     (if aborted w then Inl (DatabaseError ''current transaction is aborted'')
      else case pg_run q w of
             Inl msg \<Rightarrow> Inl (DatabaseError msg)
           | Inr (w', rs) \<Rightarrow> Inr (w', Cursor rs))"

definition commit :: "world \<Rightarrow> world" where
  "commit w = w\<lparr>aborted := False\<rparr>"

text \<open>\<open>cur.fetchone()\<close>: the next row, \<open>None\<close> when the result set is exhausted.\<close>

fun fetchone :: "cursor \<Rightarrow> py_error + row option" where
  "fetchone (Cursor None) = Inl (ProgrammingError ''no results to fetch'')"
| "fetchone (Cursor (Some [])) = Inr None"
| "fetchone (Cursor (Some (r # rs))) = Inr (Some r)"

text \<open>
  A call either returns a value or raises; what it did to the world before raising
  stays done.
\<close>

type_synonym 'a result = "(py_error + 'a) \<times> world"

text \<open>
  \<open>cur.copy_expert(sql, file)\<close> with the rows of the CSV file below its header. The
  server rejects the whole transfer when its check rejects a row. A failing transfer
  leaves the transaction aborted and the table as it was.
\<close>

fun copy_expert :: "sql \<Rightarrow> row list \<Rightarrow> world \<Rightarrow> unit result" where
  "copy_expert (CopyFromStdin s t) rows w =
     (if aborted w then (Inl (DatabaseError ''current transaction is aborted''), w)
      else case tables w (s, t) of
             None \<Rightarrow> (Inl (DatabaseError ''relation does not exist''), w\<lparr>aborted := True\<rparr>)
           | Some (cols, old) \<Rightarrow>
               if list_all (row_ok w cols) rows
               then (Inr (), w\<lparr>tables := (tables w)((s, t) \<mapsto> (cols, old @ rows)),
                               copies := Suc (copies w)\<rparr>)
               else (Inl (DatabaseError ''row rejected by the server''),
                     w\<lparr>aborted := True, copies := Suc (copies w)\<rparr>))"
| "copy_expert _ rows w = (Inl (ProgrammingError ''not a COPY statement''), w)"

subsection \<open>connect\<close>

text \<open>
  \<open>psycopg2.connect\<close> is a parameter: it gives a connection or raises. The source
  catches every exception, prints it and returns \<open>None\<close>.
\<close>

definition connect ::
  "('cfg \<Rightarrow> string + connection) \<Rightarrow> 'cfg \<Rightarrow> world \<Rightarrow> connection option \<times> world" where
  "connect psycopg2_connect config w =
     (case psycopg2_connect config of
        Inr conn \<Rightarrow> (Some conn, print ''Connected to the PostgreSQL server.'' w)
      | Inl err \<Rightarrow> (None, print (''Error: '' @ err) w))"

subsection \<open>execute_query\<close>

text \<open>
  The \<open>try\<close> block: the local \<open>cur\<close> is bound only when \<open>conn\<close> is not \<open>None\<close>; a
  \<open>psycopg2.Error\<close> of \<open>execute\<close> is caught and printed, and the \<open>commit\<close> is
  skipped. The result is the binding of \<open>cur\<close> after the block.
\<close>

definition execute_query_try :: "connection option \<Rightarrow> sql \<Rightarrow> world \<Rightarrow> cursor option \<times> world" where
  "execute_query_try conn query w =
     (case conn of
        Some c \<Rightarrow>
          (case cur_execute query w of
             Inr (w', cur) \<Rightarrow> (Some cur, commit w')
           | Inl e \<Rightarrow>
               (Some (Cursor None),
                print (''An error occurred: '' @ (case e of DatabaseError m \<Rightarrow> m | _ \<Rightarrow> []))
                  (w\<lparr>aborted := True\<rparr>)))
      | None \<Rightarrow> (None, print ''Connection to PostgreSQL failed.'' w))"

text \<open>
  After the \<open>try\<close> block, \<open>cur.fetchone()\<close> runs whenever \<open>fetch_result\<close> is set: on an
  unbound \<open>cur\<close> Python raises \<open>UnboundLocalError\<close>. Without \<open>fetch_result\<close> the
  function returns \<open>None\<close>.
\<close>

definition execute_query :: "connection option \<Rightarrow> sql \<Rightarrow> bool \<Rightarrow> world \<Rightarrow> row option result" where
  "execute_query conn query fetch_result w =
     (case execute_query_try conn query w of
        (cur, w') \<Rightarrow>
          if fetch_result then
            (case cur of
               None \<Rightarrow> (Inl (UnboundLocalError ''cur''), w')
             | Some c \<Rightarrow> (fetchone c, w'))
          else (Inr None, w'))"

subsection \<open>The loader\<close>

definition create_schema_if_not_exists :: "connection option \<Rightarrow> string \<Rightarrow> world \<Rightarrow> unit result" where
  "create_schema_if_not_exists conn table_schema w =
     (case execute_query conn (CreateSchemaIfNotExists table_schema) False w of
        (Inl e, w') \<Rightarrow> (Inl e, w')
      | (Inr _, w') \<Rightarrow>
          (Inr (), print (''Schema '' @ table_schema @ '' created successfully or already exists!'') w'))"

text \<open>The column list of the \<open>CREATE TABLE\<close> statement, name and declared SQL type.\<close>

definition online_retail_columns :: "(string \<times> string) list" where
  "online_retail_columns =
     [(''InvoiceNo'', ''VARCHAR''),
      (''StockCode'', ''VARCHAR''),
      (''Description'', ''TEXT''),
      (''Quantity'', ''INTEGER''),
      (''InvoiceDate'', ''TIMESTAMP''),
      (''UnitPrice'', ''FLOAT''),
      (''CustomerID'', ''VARCHAR''),
      (''Country'', ''VARCHAR'')]"

definition create_table_query :: "string \<Rightarrow> string \<Rightarrow> sql" where
  "create_table_query table_schema table_name =
     CreateTableIfNotExists table_schema table_name online_retail_columns"

definition create_table_if_not_exists ::
  "connection option \<Rightarrow> string \<Rightarrow> string \<Rightarrow> world \<Rightarrow> unit result" where
  "create_table_if_not_exists conn table_schema table_name w =
     (case execute_query conn (create_table_query table_schema table_name) False w of
        (Inl e, w') \<Rightarrow> (Inl e, w')
      | (Inr _, w') \<Rightarrow>
          (Inr (), print (''Table '' @ table_name @ '' created successfully or already exists!'') w'))"

text \<open>
  \<open>copy_data_from_csv_to_table\<close>. The file is the rows below the header of the CSV
  at \<open>file_path\<close>, \<open>None\<close> when \<open>open\<close> fails.
\<close>

definition copy_data_from_csv_to_table ::
  "connection option \<Rightarrow> string \<Rightarrow> string \<Rightarrow> row list option \<Rightarrow> world \<Rightarrow> unit result" where
  "copy_data_from_csv_to_table conn table_schema table_name file w =
     (case execute_query conn (SelectOneFrom table_schema table_name) True w of
        (Inl e, w1) \<Rightarrow> (Inl e, w1)
      | (Inr (Some _), w1) \<Rightarrow>
          (Inr (), print (''Table '' @ table_name @ '' already has data'') w1)
      | (Inr None, w1) \<Rightarrow>
          (case file of
             None \<Rightarrow> (Inl (FileNotFoundError ''No such file or directory''), w1)
           | Some rows \<Rightarrow>
               (case conn of
                  None \<Rightarrow> (Inl (AttributeError ''NoneType object has no attribute cursor''), w1)
                | Some c \<Rightarrow>
                    (case copy_expert (CopyFromStdin table_schema table_name) rows w1 of
                       (Inl e, w2) \<Rightarrow> (Inl e, w2)
                     | (Inr _, w2) \<Rightarrow>
                         (Inr (),
                          print (''Data imported successfully into table '' @ [CHR 0x27] @ table_name
                                 @ [CHR 0x27] @ ''!'')
                            (commit w2))))))"

text \<open>
  The store part of \<open>main\<close>: connect, ensure the schema, ensure the table, load. An
  exception of one step ends the run.
\<close>

definition main_load ::
  "('cfg \<Rightarrow> string + connection) \<Rightarrow> 'cfg \<Rightarrow> string \<Rightarrow> string \<Rightarrow> row list option \<Rightarrow> world
     \<Rightarrow> unit result" where
  "main_load psycopg2_connect config table_schema table_name file w =
     (case connect psycopg2_connect config w of
        (conn, w1) \<Rightarrow>
          (case create_schema_if_not_exists conn table_schema w1 of
             (Inl e, w2) \<Rightarrow> (Inl e, w2)
           | (Inr _, w2) \<Rightarrow>
               (case create_table_if_not_exists conn table_schema table_name w2 of
                  (Inl e, w3) \<Rightarrow> (Inl e, w3)
                | (Inr _, w3) \<Rightarrow>
                    copy_data_from_csv_to_table conn table_schema table_name file w3)))"

text \<open>
  What kind of value a declared PostgreSQL column type holds: \<open>VARCHAR\<close> is a
  character string, \<open>TEXT\<close> unlimited text, \<open>INTEGER\<close> a 4-byte integer, \<open>TIMESTAMP\<close> a
  timestamp without time zone, \<open>FLOAT\<close> a binary floating-point number (double
  precision), \<open>DECIMAL\<close> and \<open>NUMERIC\<close> an exact decimal number.
\<close>

datatype sql_kind = KString | KText | KInteger | KTimestamp | KFloat | KDecimal

definition pg_type_kind :: "string \<Rightarrow> sql_kind option" where
  "pg_type_kind ty =
     (if ty = ''VARCHAR'' then Some KString
      else if ty = ''TEXT'' then Some KText
      else if ty = ''INTEGER'' then Some KInteger
      else if ty = ''TIMESTAMP'' then Some KTimestamp
      else if ty = ''FLOAT'' then Some KFloat
      else if ty = ''DECIMAL'' \<or> ty = ''NUMERIC'' then Some KDecimal
      else None)"

fun column_kinds :: "(string \<times> string) list \<Rightarrow> (string \<times> sql_kind option) list" where
  "column_kinds [] = []"
| "column_kinds ((name, ty) # cols) = (name, pg_type_kind ty) # column_kinds cols"

subsection \<open>Example worlds\<close>

definition sample_row :: row where
  "sample_row = [''536365'', ''85123A'', ''WHITE HANGING HEART T-LIGHT HOLDER'', ''6'',
                 ''2010-12-01 08:26:00'', ''2.55'', ''17850'', ''United Kingdom'']"

text \<open>
  The check of the example server, given on the rows that the examples send: for the
  columns of the retail table it accepts \<open>sample_row\<close>, and it rejects the other rows
  of the examples.
\<close>

definition sample_row_ok :: "(string \<times> string) list \<Rightarrow> row \<Rightarrow> bool" where
  "sample_row_ok cols r \<longleftrightarrow> cols = online_retail_columns \<and> r = sample_row"

definition world0 :: world where
  "world0 = \<lparr>schemas = [], tables = (\<lambda>_. None), aborted = False, copies = 0, out = [],
             row_ok = sample_row_ok\<rparr>"

definition refusing_connect :: "unit \<Rightarrow> string + connection" where
  "refusing_connect cfg = Inl ''connection refused''"

definition retail_world :: "row list \<Rightarrow> world" where
  "retail_world rows =
     world0\<lparr>schemas := [''retail''],
            tables := (tables world0)((''retail'', ''online_retail'') \<mapsto> (online_retail_columns, rows))\<rparr>"

section \<open>The batch statement runner (analysis.py)\<close>

text \<open>
  A Python \<open>str\<close> is a sequence of Unicode code points: the text of the script and
  its statements are lists of code points. \<open>code_points\<close> gives those of a
  literal.
\<close>

type_synonym unicode = "nat list"

definition code_points :: "string \<Rightarrow> unicode" where
  "code_points s = map of_char s"

text \<open>
  \<open>str.split(';')\<close>: the fragments between the separators, in order; there is always
  at least one fragment, and a separator at the end gives a last empty fragment.
\<close>

fun split_on :: "'a \<Rightarrow> 'a list \<Rightarrow> 'a list list" where
  "split_on sep [] = [[]]"
| "split_on sep (c # cs) =
     (if c = sep then [] # split_on sep cs
      else case split_on sep cs of
             f # fs \<Rightarrow> (c # f) # fs
           | [] \<Rightarrow> [[c]])"

text \<open>
  \<open>str.strip()\<close> removes leading and trailing whitespace: the code points for which
  \<open>str.isspace\<close> holds. These are U+0009 to U+000D, U+001C to U+0020, U+0085, U+00A0,
  U+1680, U+2000 to U+200A, U+2028, U+2029, U+202F, U+205F and U+3000.
\<close>

definition is_space :: "nat \<Rightarrow> bool" where
  "is_space c \<longleftrightarrow>
     (9 \<le> c \<and> c \<le> 13) \<or> (28 \<le> c \<and> c \<le> 32) \<or> c = 133 \<or> c = 160 \<or> c = 5760 \<or>
     (8192 \<le> c \<and> c \<le> 8202) \<or> c = 8232 \<or> c = 8233 \<or> c = 8239 \<or> c = 8287 \<or> c = 12288"

definition strip :: "unicode \<Rightarrow> unicode" where
  "strip s = rev (dropWhile is_space (rev (dropWhile is_space s)))"

text \<open>
  A query result: the column names of \<open>cur.description\<close> and the rows of
  \<open>cur.fetchall()\<close>.
\<close>

type_synonym 'r query_result = "string list \<times> 'r list"

text \<open>
  \<open>cur.execute(query)\<close> on the store is a parameter: from the statement and the
  store's state it either raises or gives the new state and, when the statement
  produces a result set, its description and rows.
\<close>

type_synonym ('db, 'r) executor = "unicode \<Rightarrow> 'db \<Rightarrow> py_error + ('db \<times> 'r query_result option)"

text \<open>
  The loop over the fragments. The state carries the store, the statements passed to
  \<open>cur.execute\<close> so far and the results collected so far. An exception of \<open>execute\<close>
  leaves the loop and the function: nothing catches it, nothing is undone.
\<close>

fun run_queries ::
  "('db, 'r) executor \<Rightarrow> unicode list \<Rightarrow> 'db \<Rightarrow> unicode list \<Rightarrow> 'r query_result list
     \<Rightarrow> (py_error + 'r query_result list) \<times> 'db \<times> unicode list" where
  "run_queries execute [] db executed query_results = (Inr query_results, db, executed)"
| "run_queries execute (query # queries) db executed query_results =
     (let query = strip query in
      if query \<noteq> [] then
        (case execute query db of
           Inl e \<Rightarrow> (Inl e, db, executed @ [query])
         | Inr (db', description) \<Rightarrow>
             (case description of
                Some (columns, result) \<Rightarrow>
                  run_queries execute queries db' (executed @ [query])
                    (query_results @ [(columns, result)])
              | None \<Rightarrow>
                  run_queries execute queries db' (executed @ [query]) query_results))
      else run_queries execute queries db executed query_results)"

text \<open>
  \<open>execute_sql_file_and_fetch_results\<close>, from the text read from the script file.
  \<open>conn.cursor()\<close> on \<open>None\<close> raises \<open>AttributeError\<close>.
\<close>

definition execute_sql_file_and_fetch_results ::
  "('db, 'r) executor \<Rightarrow> connection option \<Rightarrow> unicode \<Rightarrow> 'db
     \<Rightarrow> (py_error + 'r query_result list) \<times> 'db \<times> unicode list" where
  "execute_sql_file_and_fetch_results execute conn sql_script db =
     (case conn of
        None \<Rightarrow> (Inl (AttributeError ''NoneType object has no attribute cursor''), db, [])
      | Some c \<Rightarrow> run_queries execute (split_on 59 sql_script) db [] [])"

text \<open>
  The statement batch of a script in the words of the specification: split on \<open>;\<close>,
  trim each fragment, drop the empty ones.
\<close>

definition statement_batch :: "unicode \<Rightarrow> unicode list" where
  "statement_batch script = filter (\<lambda>q. q \<noteq> []) (map strip (split_on 59 script))"

text \<open>
  Running a list of statements one after the other on the store, as long as each
  succeeds: the store after the last one and the results, \<open>None\<close> when one fails.
\<close>

fun run_all :: "('db, 'r) executor \<Rightarrow> unicode list \<Rightarrow> 'db \<Rightarrow> ('db \<times> 'r query_result list) option" where
  "run_all execute [] db = Some (db, [])"
| "run_all execute (q # qs) db =
     (case execute q db of
        Inl e \<Rightarrow> None
      | Inr (db', description) \<Rightarrow>
          (case run_all execute qs db' of
             None \<Rightarrow> None
           | Some (db'', rs) \<Rightarrow>
               Some (db'', (case description of Some r \<Rightarrow> [r] | None \<Rightarrow> []) @ rs)))"

text \<open>
  An example store: its state is the list of statements applied so far. The
  statement \<open>bad\<close> is rejected with a syntax error; a statement \<open>SELECT 1/x\<close> is
  rejected with a division by zero when \<open>SET x = 0\<close> was applied before; any other
  \<open>SELECT\<close> returns one row, and anything else returns no result set.
\<close>

definition demo_execute :: "(unicode list, unicode list) executor" where
  "demo_execute q db =
     (if q = code_points ''bad'' then Inl (DatabaseError ''syntax error at or near bad'')
      else if take 9 q = code_points ''SELECT 1/'' \<and> code_points ''SET '' @ drop 9 q @ code_points '' = 0'' \<in> set db
      then Inl (DatabaseError ''division by zero'')
      else Inr (db @ [q],
                if take 6 q = code_points ''SELECT'' then Some ([''?column?''], [[drop 7 q]]) else None))"

section \<open>Normalization in analysis.py (pandas)\<close>

subsection \<open>Decimal digits\<close>

definition is_digit :: "char \<Rightarrow> bool" where
  "is_digit c \<longleftrightarrow> 48 \<le> (of_char c :: nat) \<and> (of_char c :: nat) \<le> 57"

definition digit_char :: "nat \<Rightarrow> char" where
  "digit_char d = ''0123456789'' ! d"

text \<open>The value of a run of decimal digits, most significant first.\<close>

fun digits_value :: "nat \<Rightarrow> string \<Rightarrow> nat" where
  "digits_value acc [] = acc"
| "digits_value acc (c # cs) = digits_value (10 * acc + (of_char c - 48)) cs"

text \<open>\<open>str\<close> of a Python \<open>int\<close>: decimal digits, a minus sign for a negative number.\<close>

fun str_nat :: "nat \<Rightarrow> string" where
  "str_nat n = (if n < 10 then [digit_char n] else str_nat (n div 10) @ [digit_char (n mod 10)])"

declare str_nat.simps [simp del]

definition str_int :: "int \<Rightarrow> string" where
  "str_int i = (if i < 0 then CHR ''-'' # str_nat (nat (- i)) else str_nat (nat i))"

text \<open>A number printed with at least \<open>w\<close> digits, padded with zeros (\<open>%02d\<close>, \<open>%04d\<close>).\<close>

definition zero_pad :: "nat \<Rightarrow> nat \<Rightarrow> string" where
  "zero_pad w n = replicate (w - length (str_nat n)) CHR ''0'' @ str_nat n"

subsection \<open>\<open>pd.to_datetime(..., format='%m/%d/%Y %H:%M')\<close>\<close>

record datetime =
  year :: nat
  month :: nat
  day :: nat
  hour :: nat
  minute :: nat

text \<open>
  The directives of the format, as the regular expressions of \<open>strptime\<close> read them:
  \<open>%m\<close> is \<open>1[0-2]|0[1-9]|[1-9]\<close>, \<open>%d\<close> is \<open>3[0-1]|[1-2]\d|0[1-9]|[1-9]| [1-9]\<close>,
  \<open>%Y\<close> is four digits, \<open>%H\<close> is \<open>2[0-3]|[0-1]\d|\d\<close>, \<open>%M\<close> is \<open>[0-5]\d|\d\<close>; the
  blank of the format matches one or more whitespace characters (\<open>is_blank\<close>), every
  other character itself, and the whole text must be consumed. A \<open>char\<close> of a
  timestamp text is a code point below 256; among these the decimal digits are
  \<open>0\<close> to \<open>9\<close>. Each directive is followed
  by a character that is not a digit (or by the end), so the digits it reads are the
  whole run of digits at that place.
\<close>

definition is_blank :: "char \<Rightarrow> bool" where
  "is_blank c \<longleftrightarrow> is_space (of_char c)"

definition span_digits :: "string \<Rightarrow> string \<times> string" where
  "span_digits s = (takeWhile is_digit s, dropWhile is_digit s)"

definition month_token :: "string \<Rightarrow> bool" where
  "month_token t \<longleftrightarrow>
     (length t = 1 \<or> length t = 2) \<and> 1 \<le> digits_value 0 t \<and> digits_value 0 t \<le> 12"

definition day_token :: "string \<Rightarrow> bool" where
  "day_token t \<longleftrightarrow>
     (length t = 1 \<or> length t = 2) \<and> 1 \<le> digits_value 0 t \<and> digits_value 0 t \<le> 31"

definition hour_token :: "string \<Rightarrow> bool" where
  "hour_token t \<longleftrightarrow> (length t = 1 \<or> length t = 2) \<and> digits_value 0 t \<le> 23"

definition minute_token :: "string \<Rightarrow> bool" where
  "minute_token t \<longleftrightarrow> (length t = 1 \<or> length t = 2) \<and> digits_value 0 t \<le> 59"

text \<open>The day directive also accepts a blank followed by one digit from 1 to 9.\<close>

definition read_day :: "string \<Rightarrow> (nat \<times> string) option" where
  "read_day s =
     (case s of
        c # d # rest \<Rightarrow>
          if c = CHR '' '' \<and> is_digit d \<and> d \<noteq> CHR ''0''
          then Some (digits_value 0 [d], rest)
          else (case span_digits s of (t, r) \<Rightarrow> if day_token t then Some (digits_value 0 t, r) else None)
      | _ \<Rightarrow> (case span_digits s of (t, r) \<Rightarrow> if day_token t then Some (digits_value 0 t, r) else None))"

definition leap_year :: "nat \<Rightarrow> bool" where
  "leap_year y \<longleftrightarrow> y mod 4 = 0 \<and> (y mod 100 \<noteq> 0 \<or> y mod 400 = 0)"

definition days_in_month :: "nat \<Rightarrow> nat \<Rightarrow> nat" where
  "days_in_month y m =
     (if m = 2 then (if leap_year y then 29 else 28)
      else if m = 4 \<or> m = 6 \<or> m = 9 \<or> m = 11 then 30 else 31)"

text \<open>
  The result is a nanosecond timestamp: a date outside
  1677-09-21 00:12:43.145224193 .. 2262-04-11 23:47:16.854775807 is rejected.
\<close>

definition dt_key :: "datetime \<Rightarrow> nat" where
  "dt_key d = minute d + 60 * (hour d + 24 * (day d + 32 * (month d + 13 * year d)))"

definition in_ns_bounds :: "datetime \<Rightarrow> bool" where
  "in_ns_bounds d \<longleftrightarrow>
     dt_key \<lparr>year = 1677, month = 9, day = 21, hour = 0, minute = 13\<rparr> \<le> dt_key d \<and>
     dt_key d \<le> dt_key \<lparr>year = 2262, month = 4, day = 11, hour = 23, minute = 47\<rparr>"

definition strptime :: "string \<Rightarrow> datetime option" where
  "strptime s =
     (case span_digits s of (mt, r1) \<Rightarrow>
      if \<not> month_token mt then None else
      case r1 of [] \<Rightarrow> None | c1 # r2 \<Rightarrow>
      if c1 \<noteq> CHR ''/'' then None else
      case read_day r2 of None \<Rightarrow> None | Some (d, r3) \<Rightarrow>
      case r3 of [] \<Rightarrow> None | c2 # r4 \<Rightarrow>
      if c2 \<noteq> CHR ''/'' then None else
      case span_digits r4 of (yt, r5) \<Rightarrow>
      if length yt \<noteq> 4 then None else
      case r5 of [] \<Rightarrow> None | c3 # r5' \<Rightarrow>
      if \<not> is_blank c3 then None else
      case span_digits (dropWhile is_blank r5') of (ht, r6) \<Rightarrow>
      if \<not> hour_token ht then None else
      case r6 of [] \<Rightarrow> None | c4 # r7 \<Rightarrow>
      if c4 \<noteq> CHR '':'' then None else
      case span_digits r7 of (mint, r8) \<Rightarrow>
      if \<not> minute_token mint \<or> r8 \<noteq> [] then None else
      let dt = \<lparr>year = digits_value 0 yt, month = digits_value 0 mt, day = d,
                hour = digits_value 0 ht, minute = digits_value 0 mint\<rparr>
      in if d \<le> days_in_month (year dt) (month dt) \<and> in_ns_bounds dt then Some dt else None)"

text \<open>\<open>.dt.strftime('%Y-%m-%d %H:%M:%S')\<close>; the parsed format has no seconds.\<close>

definition strftime :: "datetime \<Rightarrow> string" where
  "strftime d =
     zero_pad 4 (year d) @ ''-'' @ zero_pad 2 (month d) @ ''-'' @ zero_pad 2 (day d) @ '' '' @
     zero_pad 2 (hour d) @ '':'' @ zero_pad 2 (minute d) @ '':00''"

text \<open>
  The texts that pandas reads as a missing timestamp without looking at the format
  (\<open>nat_strings\<close>); the empty text is read so too.
\<close>

definition nat_strings :: "string list" where
  "nat_strings = [''NaT'', ''nat'', ''NAT'', ''nan'', ''NaN'', ''NAN'']"

text \<open>
  One value of the column: a missing value (\<open>NaN\<close>), the empty text and the texts of
  \<open>nat_strings\<close> give a missing timestamp (\<open>NaT\<close>, then \<open>NaN\<close>); any other text that
  does not match the format raises \<open>ValueError\<close>.
\<close>

definition to_datetime_strftime :: "string option \<Rightarrow> py_error + string option" where
  "to_datetime_strftime v =
     (case v of
        None \<Rightarrow> Inr None
      | Some s \<Rightarrow>
          if s = [] \<or> s \<in> set nat_strings then Inr None
          else
            (case strptime s of
               None \<Rightarrow> Inl (ValueError (''time data '' @ s @ '' does not match format''))
             | Some d \<Rightarrow> Inr (Some (strftime d))))"

text \<open>The whole column: the first value that raises ends the conversion.\<close>

fun to_datetime_column :: "string option list \<Rightarrow> py_error + string option list" where
  "to_datetime_column [] = Inr []"
| "to_datetime_column (v # vs) =
     (case to_datetime_strftime v of
        Inl e \<Rightarrow> Inl e
      | Inr x \<Rightarrow> (case to_datetime_column vs of Inl e \<Rightarrow> Inl e | Inr xs \<Rightarrow> Inr (x # xs)))"

subsection \<open>The customer id\<close>

text \<open>
  The column is \<open>float64\<close> with \<open>NaN\<close> for a missing id; a finite float is a rational
  number. \<open>astype(int)\<close> truncates towards zero; a value outside the 64-bit range
  converts to the smallest 64-bit integer.
\<close>

definition fillna :: "rat \<Rightarrow> rat option \<Rightarrow> rat" where
  "fillna d v = (case v of None \<Rightarrow> d | Some x \<Rightarrow> x)"

definition astype_int :: "rat \<Rightarrow> int" where
  "astype_int x =
     (let t = (if 0 \<le> x then \<lfloor>x\<rfloor> else \<lceil>x\<rceil>)
      in if - (2 ^ 63) \<le> t \<and> t < 2 ^ 63 then t else - (2 ^ 63))"

definition normalize_customer_id :: "rat option \<Rightarrow> string" where
  "normalize_customer_id v = str_int (astype_int (fillna 0 v))"

text \<open>\<open>astype(str)\<close> on a column of texts: a missing value becomes the text \<open>nan\<close>.\<close>

definition astype_str :: "string option \<Rightarrow> string" where
  "astype_str v = (case v of None \<Rightarrow> ''nan'' | Some s \<Rightarrow> s)"

subsection \<open>read_retail_dataset\<close>

record raw_record =
  raw_InvoiceNo :: "string option"
  raw_StockCode :: "string option"
  raw_Description :: "string option"
  raw_Quantity :: int
  raw_InvoiceDate :: "string option"
  raw_UnitPrice :: rat
  raw_CustomerID :: "rat option"
  raw_Country :: "string option"

record retail_record =
  pd_InvoiceNo :: string
  pd_StockCode :: string
  pd_Description :: "string option"
  pd_Quantity :: int
  pd_InvoiceDate :: "string option"
  pd_UnitPrice :: rat
  pd_CustomerID :: string
  pd_Country :: string

definition normalize_record :: "raw_record \<Rightarrow> string option \<Rightarrow> retail_record" where
  "normalize_record r date =
     \<lparr>pd_InvoiceNo = astype_str (raw_InvoiceNo r),
      pd_StockCode = astype_str (raw_StockCode r),
      pd_Description = raw_Description r,
      pd_Quantity = raw_Quantity r,
      pd_InvoiceDate = date,
      pd_UnitPrice = raw_UnitPrice r,
      pd_CustomerID = normalize_customer_id (raw_CustomerID r),
      pd_Country = astype_str (raw_Country r)\<rparr>"

text \<open>
  The frame after the preprocessing steps, row by row in the order of the input; the
  conversion of the date column raises before any later step runs.
\<close>

definition read_retail_dataset :: "raw_record list \<Rightarrow> py_error + retail_record list" where
  "read_retail_dataset df =
     (case to_datetime_column (map raw_InvoiceDate df) of
        Inl e \<Rightarrow> Inl e
      | Inr dates \<Rightarrow> Inr (map2 normalize_record df dates))"

section \<open>Normalization in pipeline.py (Spark)\<close>

text \<open>
  A cell of the \<open>CustomerID\<close> column after \<open>inferSchema\<close>, by the type Spark inferred
  for the column; \<open>None\<close> is SQL \<open>NULL\<close>. Customer ids are whole numbers: a cell of a
  column inferred as double holds a double with a whole value below \<open>2\<^sup>5\<^sup>3\<close> in size,
  and these doubles are the integers of that range.
\<close>

datatype spark_type = IntegerType | DoubleType | StringType

typedef whole_double = "{n :: int. \<bar>n\<bar> < 2 ^ 53}"
  by (rule exI[of _ 0]) simp

datatype spark_value = IntV int | DoubleV whole_double | StrV string

text \<open>
  \<open>df.fillna({'CustomerID': 0})\<close>: with a dictionary, the replacement is cast to the
  type of the column, whatever that type is: \<open>0\<close>, \<open>0.0\<close> or the text \<open>0\<close>.
\<close>

definition fillna_zero :: "spark_type \<Rightarrow> spark_value option \<Rightarrow> spark_value option" where
  "fillna_zero ty v =
     (case v of
        Some x \<Rightarrow> Some x
      | None \<Rightarrow>
          (case ty of
             IntegerType \<Rightarrow> Some (IntV 0)
           | DoubleType \<Rightarrow> Some (DoubleV (Abs_whole_double 0))
           | StringType \<Rightarrow> Some (StrV ''0'')))"

text \<open>
  The text of a double with a whole value (Java's \<open>Double.toString\<close>): below \<open>10\<^sup>7\<close> the
  integer followed by \<open>.0\<close>, from there on the digits without trailing zeros, a point
  after the first and the exponent after \<open>E\<close>.
\<close>

definition strip_trailing_zeros :: "string \<Rightarrow> string" where
  "strip_trailing_zeros ds = rev (dropWhile (\<lambda>c. c = CHR ''0'') (rev ds))"

definition double_to_string :: "whole_double \<Rightarrow> string" where
  "double_to_string d =
     (let n = Rep_whole_double d in
      if \<bar>n\<bar> < 10 ^ 7 then str_int n @ ''.0''
      else
        (let ds = str_nat (nat \<bar>n\<bar>);
             frac = strip_trailing_zeros (tl ds)
         in (if n < 0 then ''-'' else []) @ [hd ds] @ ''.'' @ (if frac = [] then ''0'' else frac)
            @ ''E'' @ str_nat (length ds - 1)))"

text \<open>\<open>F.col('CustomerID').cast('string')\<close>.\<close>

definition cast_string :: "spark_value option \<Rightarrow> string option" where
  "cast_string v =
     (case v of
        None \<Rightarrow> None
      | Some (IntV i) \<Rightarrow> Some (str_int i)
      | Some (DoubleV d) \<Rightarrow> Some (double_to_string d)
      | Some (StrV s) \<Rightarrow> Some s)"

definition spark_customer_id :: "spark_type \<Rightarrow> spark_value option \<Rightarrow> string option" where
  "spark_customer_id ty v = cast_string (fillna_zero ty v)"

text \<open>
  \<open>F.to_timestamp("InvoiceDate", "M/d/yyyy H:mm")\<close>. Spark's two parsers of the
  pattern are parameters: \<open>parse\<close>, the parser in use, and \<open>legacy_parse\<close>, the one of
  Spark 2, which is consulted when \<open>parse\<close> rejects the text: a text only the legacy
  parser reads raises an upgrade exception. A text that both reject is an error when
  the session's ANSI mode is on, and \<open>NULL\<close> when it is off.
\<close>

datatype spark_error = SparkUpgradeException | DateTimeException

definition to_timestamp ::
  "bool \<Rightarrow> (string \<Rightarrow> datetime option) \<Rightarrow> (string \<Rightarrow> datetime option) \<Rightarrow> string option
     \<Rightarrow> spark_error + datetime option" where
  "to_timestamp ansi_enabled parse legacy_parse v =
     (case v of
        None \<Rightarrow> Inr None
      | Some s \<Rightarrow>
          (case parse s of
             Some t \<Rightarrow> Inr (Some t)
           | None \<Rightarrow>
               if legacy_parse s \<noteq> None then Inl SparkUpgradeException
               else if ansi_enabled then Inl DateTimeException
               else Inr None))"

subsection \<open>read_csv_file\<close>

text \<open>
  A row of the frame read from the CSV file, with the types \<open>inferSchema\<close> gives the
  columns of the retail data, and a row of the frame the function returns. The
  floating-point \<open>UnitPrice\<close> is taken as the rational number it stands for.
\<close>

record csv_row =
  csv_InvoiceNo :: "string option"
  csv_StockCode :: "string option"
  csv_Description :: "string option"
  csv_Quantity :: "int option"
  csv_InvoiceDate :: "string option"
  csv_UnitPrice :: "rat option"
  csv_CustomerID :: "spark_value option"
  csv_Country :: "string option"

record sales_row =
  InvoiceNo :: "string option"
  StockCode :: "string option"
  Description :: "string option"
  Quantity :: "int option"
  InvoiceDate :: "datetime option"
  UnitPrice :: "rat option"
  CustomerID :: "string option"
  Country :: "string option"

definition select_row ::
  "bool \<Rightarrow> (string \<Rightarrow> datetime option) \<Rightarrow> (string \<Rightarrow> datetime option) \<Rightarrow> spark_type \<Rightarrow> csv_row
     \<Rightarrow> spark_error + sales_row" where
  "select_row ansi_enabled parse legacy_parse customer_id_type r =
     (case to_timestamp ansi_enabled parse legacy_parse (csv_InvoiceDate r) of
        Inl e \<Rightarrow> Inl e
      | Inr ts \<Rightarrow>
          Inr \<lparr>InvoiceNo = csv_InvoiceNo r,
               StockCode = csv_StockCode r,
               Description = csv_Description r,
               Quantity = csv_Quantity r,
               InvoiceDate = ts,
               UnitPrice = csv_UnitPrice r,
               CustomerID = spark_customer_id customer_id_type (csv_CustomerID r),
               Country = csv_Country r\<rparr>)"

text \<open>The frame, evaluated: the first row that raises ends the job.\<close>

fun read_csv_file ::
  "bool \<Rightarrow> (string \<Rightarrow> datetime option) \<Rightarrow> (string \<Rightarrow> datetime option) \<Rightarrow> spark_type \<Rightarrow> csv_row list
     \<Rightarrow> spark_error + sales_row list" where
  "read_csv_file ansi_enabled parse legacy_parse customer_id_type [] = Inr []"
| "read_csv_file ansi_enabled parse legacy_parse customer_id_type (r # rs) =
     (case select_row ansi_enabled parse legacy_parse customer_id_type r of
        Inl e \<Rightarrow> Inl e
      | Inr x \<Rightarrow>
          (case read_csv_file ansi_enabled parse legacy_parse customer_id_type rs of
             Inl e \<Rightarrow> Inl e
           | Inr xs \<Rightarrow> Inr (x # xs)))"

subsection \<open>Example records\<close>

definition sample_raw_record :: raw_record where
  "sample_raw_record =
     \<lparr>raw_InvoiceNo = Some ''536365'', raw_StockCode = Some ''85123A'',
      raw_Description = Some ''WHITE HANGING HEART T-LIGHT HOLDER'', raw_Quantity = 6,
      raw_InvoiceDate = Some ''12/1/2010 8:26'', raw_UnitPrice = 255 / 100,
      raw_CustomerID = Some 17850, raw_Country = Some ''United Kingdom''\<rparr>"

definition sample_csv_row :: csv_row where
  "sample_csv_row =
     \<lparr>csv_InvoiceNo = Some ''536365'', csv_StockCode = Some ''85123A'',
      csv_Description = Some ''WHITE HANGING HEART T-LIGHT HOLDER'', csv_Quantity = Some 6,
      csv_InvoiceDate = Some ''12/1/2010 8:26'', csv_UnitPrice = Some (255 / 100),
      csv_CustomerID = Some (DoubleV (Abs_whole_double 17850)), csv_Country = Some ''United Kingdom''\<rparr>"

section \<open>The aggregations of pipeline.py (Spark)\<close>

text \<open>The values of a column that are not \<open>NULL\<close>, in order.\<close>

fun non_null :: "'a option list \<Rightarrow> 'a list" where
  "non_null [] = []"
| "non_null (None # vs) = non_null vs"
| "non_null (Some x # vs) = x # non_null vs"








text \<open>
  \<open>groupBy\<close>: one group per value of the key, \<open>NULL\<close> being a key like any other.
  The order in which Spark yields the groups is not specified; here it is the order
  in which the keys first appear.
\<close>

definition group_keys :: "('a \<Rightarrow> 'k) \<Rightarrow> 'a list \<Rightarrow> 'k list" where
  "group_keys key df = rev (remdups (rev (map key df)))"

definition group_by :: "('a \<Rightarrow> 'k) \<Rightarrow> 'a list \<Rightarrow> ('k \<times> 'a list) list" where
  "group_by key df = map (\<lambda>k. (k, filter (\<lambda>r. key r = k) df)) (group_keys key df)"




text \<open>\<open>F.to_date\<close>: the calendar date of a timestamp.\<close>

type_synonym date = "nat \<times> nat \<times> nat"

definition to_date :: "datetime option \<Rightarrow> date option" where
  "to_date ts = (case ts of None \<Rightarrow> None | Some d \<Rightarrow> Some (year d, month d, day d))"

text \<open>\<open>F.countDistinct\<close>: the number of different values that are not \<open>NULL\<close>.\<close>

definition count_distinct :: "'a option list \<Rightarrow> nat" where
  "count_distinct vs = length (remdups (non_null vs))"

fun agg_total_transactions :: "date option \<times> sales_row list \<Rightarrow> date option \<times> nat" where
  "agg_total_transactions (k, g) = (k, count_distinct (map InvoiceNo g))"

text \<open>
  \<open>calculate_transaction_per_day\<close> returns the grouped frame; the ordering is applied
  only to what it shows.
\<close>

definition calculate_transaction_per_day :: "sales_row list \<Rightarrow> (date option \<times> nat) list" where
  "calculate_transaction_per_day df =
     map agg_total_transactions (group_by (\<lambda>r. to_date (InvoiceDate r)) df)"

subsection \<open>Example sales\<close>

definition sale :: "string \<Rightarrow> string \<Rightarrow> int \<Rightarrow> rat \<Rightarrow> datetime \<Rightarrow> sales_row" where
  "sale invoice stock qty price ts =
     \<lparr>InvoiceNo = Some invoice, StockCode = Some stock, Description = None, Quantity = Some qty,
      InvoiceDate = Some ts, UnitPrice = Some price, CustomerID = Some ''17850'',
      Country = Some ''United Kingdom''\<rparr>"

definition dec1 :: datetime where
  "dec1 = \<lparr>year = 2010, month = 12, day = 1, hour = 8, minute = 26\<rparr>"

definition dec2 :: datetime where
  "dec2 = \<lparr>year = 2010, month = 12, day = 2, hour = 9, minute = 0\<rparr>"

definition example_sales :: "sales_row list" where
  "example_sales =
     [sale ''536365'' ''A'' 2 3 dec1, sale ''536365'' ''A'' 1 3 (dec1\<lparr>hour := 17\<rparr>),
      sale ''536366'' ''B'' 5 1 dec2]"







section \<open>Properties of the loader\<close>

lemmas loader_defs = execute_query_def execute_query_try_def cur_execute_def commit_def print_def
  copy_data_from_csv_to_table_def create_schema_if_not_exists_def create_table_if_not_exists_def
  create_table_query_def connect_def main_load_def

text \<open>
  C10. A failed connection attempt makes \<open>connect\<close> return \<open>None\<close>. With
  \<open>conn = None\<close>, \<open>execute_query\<close> called with \<open>fetch_result=True\<close> prints the
  failure message and then raises on the unbound local \<open>cur\<close>: an \<open>UnboundLocalError\<close>,
  which is a \<open>NameError\<close>, not a connection error and not a result. The loader's probe
  is such a call, so the loader raises the same error.
\<close>

theorem execute_query_None_fetch_raises_NameError:
  "fst (connect refusing_connect () w) = None
   \<and> execute_query None query True w =
     (Inl (UnboundLocalError ''cur''), print ''Connection to PostgreSQL failed.'' w)
   \<and> is_NameError (UnboundLocalError ''cur'')
   \<and> \<not> is_psycopg2_Error (UnboundLocalError ''cur'')
   \<and> copy_data_from_csv_to_table None table_schema table_name file w =
     (Inl (UnboundLocalError ''cur''), print ''Connection to PostgreSQL failed.'' w)"
  by (simp add: loader_defs refusing_connect_def)

subsection \<open>What the probe and the load do to the store\<close>

lemma pg_run_copies: "pg_run q w = Inr (w', rs) \<Longrightarrow> copies w' = copies w"
  by (cases q) (auto split: if_splits option.splits)

lemma execute_query_copies: "copies (snd (execute_query conn q b w)) = copies w"
  by (auto simp add: loader_defs dest: pg_run_copies split: option.splits sum.splits prod.splits)

lemma probe_tables: "tables (snd (execute_query conn (SelectOneFrom s t) b w)) = tables w"
  by (auto simp add: loader_defs split: option.splits sum.splits prod.splits)


lemma probe_result:
  assumes "tables w (s, t) = Some (cols, rs)" and "\<not> aborted w"
  shows "execute_query (Some c) (SelectOneFrom s t) True w =
           (Inr (case rs of [] \<Rightarrow> None | _ # _ \<Rightarrow> Some [''1'']), w)"
  using assms by (cases rs) (simp_all add: loader_defs)

lemma probe_never_none:
  assumes "tables w (s, t) = Some (cols, r # rs)"
  shows "fst (execute_query conn (SelectOneFrom s t) True w) \<noteq> Inr None"
  using assms by (cases conn) (simp_all add: loader_defs)

lemma loaded_no_transfer:
  assumes "tables w (s, t) = Some (cols, r # rs)"
  shows "copies (snd (copy_data_from_csv_to_table conn s t file w)) = copies w
       \<and> tables (snd (copy_data_from_csv_to_table conn s t file w)) = tables w"
proof -
  obtain res w1 where p: "execute_query conn (SelectOneFrom s t) True w = (res, w1)"
    by (cases "execute_query conn (SelectOneFrom s t) True w")
  have c: "copies w1 = copies w"
    using execute_query_copies[of conn "SelectOneFrom s t" True w] p by simp
  have tb: "tables w1 = tables w"
    using probe_tables[of conn s t True w] p by simp
  have nn: "res \<noteq> Inr None"
    using probe_never_none[OF assms, of conn] p by simp
  show ?thesis
  proof (cases res)
    case (Inl e)
    then show ?thesis using p c tb by (simp add: copy_data_from_csv_to_table_def)
  next
    case (Inr v)
    with nn obtain x where "v = Some x" by (cases v) auto
    then show ?thesis using Inr p c tb by (simp add: copy_data_from_csv_to_table_def print_def)
  qed
qed

lemma first_load:
  assumes "tables w (s, t) = Some (cols, [])" and "\<not> aborted w"
    and "list_all (row_ok w cols) rows"
  shows "copy_data_from_csv_to_table (Some c) s t (Some rows) w =
     (Inr (), print (''Data imported successfully into table '' @ [CHR 0x27] @ t @ [CHR 0x27] @ ''!'')
        (w\<lparr>tables := (tables w)((s, t) \<mapsto> (cols, rows)), copies := Suc (copies w)\<rparr>))"
  using assms by (simp add: copy_data_from_csv_to_table_def probe_result commit_def print_def)

lemma second_load:
  assumes "tables w (s, t) = Some (cols, r # rs)" and "\<not> aborted w"
  shows "copy_data_from_csv_to_table (Some c) s t file w =
     (Inr (), print (''Table '' @ t @ '' already has data'') w)"
  using assms by (simp add: copy_data_from_csv_to_table_def probe_result)

text \<open>
  C1, as stated, fails on a dataset without rows: the first transfer leaves the table
  empty, so the second call's probe finds no row and transfers again.
\<close>

theorem load_twice_empty_dataset_transfers_twice:
  "copies (retail_world []) = 0 \<and>
   copies (snd (copy_data_from_csv_to_table (Some PgConn) ''retail'' ''online_retail'' (Some [])
      (snd (copy_data_from_csv_to_table (Some PgConn) ''retail'' ''online_retail'' (Some [])
         (retail_world []))))) = 2"
  by (simp add: loader_defs retail_world_def world0_def)

text \<open>
  C1, amended. On a live connection outside an aborted transaction, with an existing
  empty table and a dataset of at least one row, every row of which passes the
  server's check against the columns of the table, the first call transfers the
  dataset and a second call (with any dataset) returns normally, reports
  that the table already has data and transfers nothing: one transfer in all. And
  whatever the connection, the session state and the dataset, a call on a table that
  holds at least one row transfers nothing and leaves every table as it was.
\<close>

theorem load_idempotent:
  "(tables w (s, t) = Some (cols, []) \<and> \<not> aborted w \<and> rows \<noteq> []
      \<and> list_all (row_ok w cols) rows \<longrightarrow>
     (case copy_data_from_csv_to_table (Some c) s t (Some rows) w of
        (r1, w1) \<Rightarrow>
          r1 = Inr () \<and> copies w1 = Suc (copies w) \<and> tables w1 (s, t) = Some (cols, rows) \<and>
          (case copy_data_from_csv_to_table (Some c) s t (Some rows') w1 of
             (r2, w2) \<Rightarrow>
               r2 = Inr () \<and> copies w2 = Suc (copies w) \<and> tables w2 = tables w1 \<and>
               out w2 = out w1 @ [''Table '' @ t @ '' already has data''])))
   \<and> (tables wl (sl, tn) = Some (colsl, r # rs) \<longrightarrow>
        copies (snd (copy_data_from_csv_to_table conn sl tn csv wl)) = copies wl \<and>
        tables (snd (copy_data_from_csv_to_table conn sl tn csv wl)) = tables wl)"
proof (rule conjI; rule impI)
  assume a: "tables w (s, t) = Some (cols, []) \<and> \<not> aborted w \<and> rows \<noteq> []
      \<and> list_all (row_ok w cols) rows"
  then obtain x xs where rows: "rows = x # xs" by (cases rows) auto
  let ?w1 = "print (''Data imported successfully into table '' @ [CHR 0x27] @ t @ [CHR 0x27] @ ''!'')
        (w\<lparr>tables := (tables w)((s, t) \<mapsto> (cols, rows)), copies := Suc (copies w)\<rparr>)"
  have 1: "copy_data_from_csv_to_table (Some c) s t (Some rows) w = (Inr (), ?w1)"
    using a by (simp add: first_load)
  have t1: "tables ?w1 (s, t) = Some (cols, x # xs)" and a1: "\<not> aborted ?w1"
    using a rows by (simp_all add: print_def)
  have 2: "copy_data_from_csv_to_table (Some c) s t (Some rows') ?w1 =
     (Inr (), print (''Table '' @ t @ '' already has data'') ?w1)"
    by (rule second_load [OF t1 a1])
  show "case copy_data_from_csv_to_table (Some c) s t (Some rows) w of
        (r1, w1) \<Rightarrow>
          r1 = Inr () \<and> copies w1 = Suc (copies w) \<and> tables w1 (s, t) = Some (cols, rows) \<and>
          (case copy_data_from_csv_to_table (Some c) s t (Some rows') w1 of
             (r2, w2) \<Rightarrow>
               r2 = Inr () \<and> copies w2 = Suc (copies w) \<and> tables w2 = tables w1 \<and>
               out w2 = out w1 @ [''Table '' @ t @ '' already has data''])"
    unfolding 1 prod.case 2 by (simp add: print_def)
next
  assume "tables wl (sl, tn) = Some (colsl, r # rs)"
  then show "copies (snd (copy_data_from_csv_to_table conn sl tn csv wl)) = copies wl \<and>
        tables (snd (copy_data_from_csv_to_table conn sl tn csv wl)) = tables wl"
    by (rule loaded_no_transfer)
qed

theorem load_idempotent_witness:
  "tables (retail_world []) (''retail'', ''online_retail'') = Some (online_retail_columns, [])
   \<and> \<not> aborted (retail_world [])
   \<and> list_all (row_ok (retail_world []) online_retail_columns) [sample_row]
   \<and> copies (retail_world []) = 0
   \<and> copies (snd (copy_data_from_csv_to_table (Some PgConn) ''retail'' ''online_retail''
         (Some [sample_row, sample_row])
         (snd (copy_data_from_csv_to_table (Some PgConn) ''retail'' ''online_retail''
            (Some [sample_row]) (retail_world []))))) = 1
   \<and> tables (retail_world [sample_row]) (''retail'', ''online_retail'')
       = Some (online_retail_columns, [sample_row])
   \<and> copies (snd (copy_data_from_csv_to_table None ''retail'' ''online_retail''
         (Some [sample_row, sample_row]) (retail_world [sample_row]))) = 0"
  using load_idempotent [where w = "retail_world []" and s = "''retail''" and t = "''online_retail''"
      and cols = online_retail_columns and rows = "[sample_row]"
      and rows' = "[sample_row, sample_row]" and c = PgConn
      and wl = "retail_world [sample_row]" and sl = "''retail''" and tn = "''online_retail''"
      and colsl = online_retail_columns and r = sample_row and rs = "[]"
      and conn = None and csv = "Some [sample_row, sample_row]"]
  by (simp add: retail_world_def world0_def sample_row_ok_def split: prod.splits)

section \<open>Error propagation\<close>




section \<open>The declared schema\<close>

text \<open>
  C9, as stated, fails: the declared type of \<open>UnitPrice\<close> is \<open>FLOAT\<close>, a binary
  floating-point type, not a decimal type.
\<close>

theorem UnitPrice_is_not_decimal:
  "map_of online_retail_columns ''UnitPrice'' = Some ''FLOAT''
   \<and> map_of (column_kinds online_retail_columns) ''UnitPrice'' = Some (Some KFloat)
   \<and> map_of (column_kinds online_retail_columns) ''UnitPrice'' \<noteq> Some (Some KDecimal)"
  by (simp add: online_retail_columns_def pg_type_kind_def)

text \<open>
  C9, amended. The statement of the ensure-table step declares eight columns, in this
  order: \<open>InvoiceNo\<close> (string), \<open>StockCode\<close> (string), \<open>Description\<close> (text), \<open>Quantity\<close>
  (integer), \<open>InvoiceDate\<close> (timestamp), \<open>UnitPrice\<close> (floating point), \<open>CustomerID\<close>
  (string), \<open>Country\<close> (string); on a live connection outside an aborted transaction,
  when the schema exists and the table does not, the step creates the table empty
  with these columns.
\<close>

theorem created_table_schema:
  "create_table_query table_schema table_name
     = CreateTableIfNotExists table_schema table_name online_retail_columns
   \<and> length online_retail_columns = 8
   \<and> column_kinds online_retail_columns =
       [(''InvoiceNo'', Some KString), (''StockCode'', Some KString),
        (''Description'', Some KText), (''Quantity'', Some KInteger),
        (''InvoiceDate'', Some KTimestamp), (''UnitPrice'', Some KFloat),
        (''CustomerID'', Some KString), (''Country'', Some KString)]
   \<and> (table_schema \<in> set (schemas w) \<and> tables w (table_schema, table_name) = None \<and> \<not> aborted w \<longrightarrow>
        fst (create_table_if_not_exists (Some c) table_schema table_name w) = Inr () \<and>
        tables (snd (create_table_if_not_exists (Some c) table_schema table_name w))
          (table_schema, table_name) = Some (online_retail_columns, []))"
  by (simp add: loader_defs online_retail_columns_def pg_type_kind_def)

theorem created_table_schema_witness:
  "''retail'' \<in> set (schemas (world0\<lparr>schemas := [''retail'']\<rparr>))
   \<and> tables (world0\<lparr>schemas := [''retail'']\<rparr>) (''retail'', ''online_retail'') = None
   \<and> \<not> aborted (world0\<lparr>schemas := [''retail'']\<rparr>)
   \<and> tables (snd (create_table_if_not_exists (Some PgConn) ''retail'' ''online_retail''
        (world0\<lparr>schemas := [''retail'']\<rparr>))) (''retail'', ''online_retail'')
       = Some (online_retail_columns, [])"
  using created_table_schema [where table_schema = "''retail''" and table_name = "''online_retail''"
      and w = "world0\<lparr>schemas := [''retail'']\<rparr>" and c = PgConn]
  by (simp add: world0_def)

section \<open>Properties of the batch statement runner\<close>

lemma split_on_nonempty: "split_on sep s \<noteq> []"
  by (induction s) (auto split: list.splits)

lemma split_on_no_sep: "f \<in> set (split_on sep s) \<Longrightarrow> sep \<notin> set f"
  by (induction s arbitrary: f) (auto split: list.splits if_splits)

lemma strip_subset: "set (strip s) \<subseteq> set s"
proof -
  have "set (dropWhile is_space (rev (dropWhile is_space s))) \<subseteq> set (rev (dropWhile is_space s))"
    by (rule subsetI) (rule set_dropWhileD)
  also have "\<dots> \<subseteq> set s" by (auto dest: set_dropWhileD)
  finally show ?thesis by (simp add: strip_def)
qed

lemma strip_hd: "strip s \<noteq> [] \<Longrightarrow> \<not> is_space (hd (strip s))"
proof -
  assume a: "strip s \<noteq> []"
  let ?d = "dropWhile is_space s"
  let ?e = "dropWhile is_space (rev ?d)"
  have e: "?e \<noteq> []" using a by (simp add: strip_def)
  then have d: "?d \<noteq> []" by (cases "dropWhile is_space s") simp_all
  have hd_d: "\<not> is_space (hd ?d)" using d by (rule hd_dropWhile)
  have "rev ?d = takeWhile is_space (rev ?d) @ ?e" by simp
  then have "rev (rev ?d) = rev (takeWhile is_space (rev ?d) @ ?e)" by (rule arg_cong)
  then have "?d = rev ?e @ rev (takeWhile is_space (rev ?d))" by (simp only: rev_append rev_rev_ident)
  then have "hd ?d = hd (rev ?e @ rev (takeWhile is_space (rev ?d)))" by (rule arg_cong)
  also have "\<dots> = hd (rev ?e)" using e by (simp only: hd_append2 rev_is_Nil_conv not_False_eq_True)
  finally show ?thesis using hd_d by (simp add: strip_def)
qed

lemma strip_last: "strip s \<noteq> [] \<Longrightarrow> \<not> is_space (last (strip s))"
proof -
  assume a: "strip s \<noteq> []"
  let ?e = "dropWhile is_space (rev (dropWhile is_space s))"
  have e: "?e \<noteq> []" using a by (simp add: strip_def)
  have "\<not> is_space (hd ?e)" using e by (rule hd_dropWhile)
  then show ?thesis using e by (simp add: strip_def last_rev)
qed

lemma run_queries_ok:
  "run_all ex (filter (\<lambda>q. q \<noteq> []) (map strip fs)) db = Some (db', rs) \<Longrightarrow>
   run_queries ex fs db seen res = (Inr (res @ rs), db', seen @ filter (\<lambda>q. q \<noteq> []) (map strip fs))"
proof (induction fs arbitrary: db seen res rs)
  case Nil
  then show ?case by simp
next
  case (Cons f fs)
  show ?case
  proof (cases "strip f = []")
    case True
    then show ?thesis using Cons by simp
  next
    case False
    with Cons.prems obtain db1 d rs1 where
      e: "ex (strip f) db = Inr (db1, d)" and
      r: "run_all ex (filter (\<lambda>q. q \<noteq> []) (map strip fs)) db1 = Some (db', rs1)" and
      rs: "rs = (case d of Some r \<Rightarrow> [r] | None \<Rightarrow> []) @ rs1"
      by (auto split: sum.splits option.splits prod.splits)
    show ?thesis
      using False e rs Cons.IH[OF r] by (cases d) (auto simp add: Let_def)
  qed
qed

lemma run_queries_fail:
  "k < length (filter (\<lambda>q. q \<noteq> []) (map strip fs)) \<Longrightarrow>
   run_all ex (take k (filter (\<lambda>q. q \<noteq> []) (map strip fs))) db = Some (dbk, rs) \<Longrightarrow>
   ex (filter (\<lambda>q. q \<noteq> []) (map strip fs) ! k) dbk = Inl e \<Longrightarrow>
   run_queries ex fs db seen res =
     (Inl e, dbk, seen @ take (Suc k) (filter (\<lambda>q. q \<noteq> []) (map strip fs)))"
proof (induction fs arbitrary: k db seen res rs)
  case Nil
  then show ?case by simp
next
  case (Cons f fs)
  show ?case
  proof (cases "strip f = []")
    case True
    then show ?thesis using Cons by simp
  next
    case False
    show ?thesis
    proof (cases k)
      case 0
      then show ?thesis using False Cons.prems by (simp add: Let_def)
    next
      case (Suc k')
      with False Cons.prems obtain db1 d rs1 where
        e: "ex (strip f) db = Inr (db1, d)" and
        r: "run_all ex (take k' (filter (\<lambda>q. q \<noteq> []) (map strip fs))) db1 = Some (dbk, rs1)"
        by (auto split: sum.splits option.splits prod.splits)
      have k': "k' < length (filter (\<lambda>q. q \<noteq> []) (map strip fs))"
        using Cons.prems(1) False Suc by simp
      have f: "ex (filter (\<lambda>q. q \<noteq> []) (map strip fs) ! k') dbk = Inl e"
        using Cons.prems(3) False Suc by simp
      show ?thesis
        using False e Suc Cons.IH[OF k' r f] by (cases d) (auto simp add: Let_def)
    qed
  qed
qed

lemma run_all_None:
  "run_all ex sts db = None \<Longrightarrow>
   \<exists>k dbk rs e. k < length sts \<and> run_all ex (take k sts) db = Some (dbk, rs) \<and> ex (sts ! k) dbk = Inl e"
proof (induction sts arbitrary: db)
  case Nil
  then show ?case by simp
next
  case (Cons q qs)
  show ?case
  proof (cases "ex q db")
    case (Inl e)
    then have "0 < length (q # qs) \<and> run_all ex (take 0 (q # qs)) db = Some (db, []) \<and> ex ((q # qs) ! 0) db = Inl e"
      by simp
    then show ?thesis by blast
  next
    case (Inr p)
    obtain db1 d where p: "p = (db1, d)" by (cases p)
    with Inr Cons.prems have "run_all ex qs db1 = None"
      by (auto split: option.splits)
    from Cons.IH[OF this] obtain k dbk rs e where
      k: "k < length qs" "run_all ex (take k qs) db1 = Some (dbk, rs)" "ex (qs ! k) dbk = Inl e"
      by blast
    then have "Suc k < length (q # qs) \<and>
        run_all ex (take (Suc k) (q # qs)) db = Some (dbk, (case d of Some r \<Rightarrow> [r] | None \<Rightarrow> []) @ rs) \<and>
        ex ((q # qs) ! Suc k) dbk = Inl e"
      using Inr p by simp
    then show ?thesis by blast
  qed
qed

text \<open>
  The loop of the runner executes the statement batch of the script: when every
  statement succeeds it returns the collected results; when statement \<open>k\<close> (counted
  from 0) is the first to fail it stops there.
\<close>

lemma runner_prefix:
  "case execute_sql_file_and_fetch_results ex (Some c) script db of
     (r, db', executed) \<Rightarrow>
       (\<exists>n\<le>length (statement_batch script). executed = take n (statement_batch script)) \<and>
       (\<forall>rs. r = Inr rs \<longrightarrow> executed = statement_batch script)"
proof (cases "run_all ex (statement_batch script) db")
  case None
  from run_all_None[OF this] obtain k dbk rs e where
    k: "k < length (statement_batch script)"
       "run_all ex (take k (statement_batch script)) db = Some (dbk, rs)"
       "ex (statement_batch script ! k) dbk = Inl e"
    by blast
  have "execute_sql_file_and_fetch_results ex (Some c) script db =
          (Inl e, dbk, take (Suc k) (statement_batch script))"
    using run_queries_fail[of k "split_on 59 script" ex db dbk rs e "[]" "[]"] k
    by (simp add: execute_sql_file_and_fetch_results_def statement_batch_def)
  moreover have "Suc k \<le> length (statement_batch script)" using k(1) by simp
  ultimately show ?thesis by auto
next
  case (Some p)
  obtain db' rs where "p = (db', rs)" by (cases p)
  with Some have "execute_sql_file_and_fetch_results ex (Some c) script db =
          (Inr rs, db', statement_batch script)"
    using run_queries_ok[of ex "split_on 59 script" db db' rs "[]" "[]"]
    by (simp add: execute_sql_file_and_fetch_results_def statement_batch_def)
  then show ?thesis by auto
qed

lemma statement_batch_stripped:
  assumes "q \<in> set (statement_batch script)"
  shows "q \<noteq> [] \<and> \<not> is_space (hd q) \<and> \<not> is_space (last q) \<and> 59 \<notin> set q"
proof -
  from assms obtain f where f: "f \<in> set (split_on 59 script)" and q: "q = strip f" and ne: "q \<noteq> []"
    by (auto simp add: statement_batch_def)
  have "59 \<notin> set f" using f by (rule split_on_no_sep)
  then have "59 \<notin> set q" using strip_subset[of f] q by auto
  then show ?thesis using ne q strip_hd[of f] strip_last[of f] by simp
qed

lemmas runner_defs = execute_sql_file_and_fetch_results_def statement_batch_def demo_execute_def
  strip_def is_space_def code_points_def Let_def

text \<open>
  C8. The runner splits the script on \<open>;\<close>, trims each fragment and skips the empty
  ones: every statement it passes to \<open>execute\<close> is a non-empty trimmed fragment without
  \<open>;\<close>, the statements it executes are the statement batch of the script in order (all
  of it when the run returns, an initial part when a statement fails), and the script
  \<open>SELECT 1; ; SELECT 2;\<close> gives exactly the two statements \<open>SELECT 1\<close> and \<open>SELECT 2\<close>.
\<close>

theorem batch_parsing:
  "statement_batch (code_points ''SELECT 1; ; SELECT 2;'') = [code_points ''SELECT 1'', code_points ''SELECT 2'']
   \<and> length (statement_batch (code_points ''SELECT 1; ; SELECT 2;'')) = 2
   \<and> (\<forall>q \<in> set (statement_batch script).
         q \<noteq> [] \<and> \<not> is_space (hd q) \<and> \<not> is_space (last q) \<and> 59 \<notin> set q)
   \<and> (case execute_sql_file_and_fetch_results execute (Some c) script db of
         (r, db', executed) \<Rightarrow>
           (\<exists>n\<le>length (statement_batch script). executed = take n (statement_batch script)) \<and>
           (\<forall>rs. r = Inr rs \<longrightarrow> executed = statement_batch script))"
proof -
  have "statement_batch (code_points ''SELECT 1; ; SELECT 2;'') = [code_points ''SELECT 1'', code_points ''SELECT 2'']"
    by (simp add: runner_defs)
  then show ?thesis
    using runner_prefix[where ex = execute and c = c and script = script and db = db]
      statement_batch_stripped[where script = script]
    by simp
qed

theorem batch_parsing_witness:
  "set (statement_batch (code_points ''SELECT 1; ; SELECT 2;'')) = {code_points ''SELECT 1'', code_points ''SELECT 2''}
   \<and> \<not> is_space (hd (code_points ''SELECT 1'')) \<and> \<not> is_space (last (code_points ''SELECT 2''))
   \<and> execute_sql_file_and_fetch_results demo_execute (Some PgConn) (code_points ''SELECT 1; ; SELECT 2;'') []
       = (Inr [([''?column?''], [[code_points ''1'']]), ([''?column?''], [[code_points ''2'']])],
          [code_points ''SELECT 1'', code_points ''SELECT 2''], [code_points ''SELECT 1'', code_points ''SELECT 2''])
   \<and> statement_batch [97, 160, 59, 160, 59, 98] = [[97], [98]]"
proof -
  have b: "statement_batch (code_points ''SELECT 1; ; SELECT 2;'') = [code_points ''SELECT 1'', code_points ''SELECT 2'']"
    using batch_parsing[where script = "code_points ''SELECT 1; ; SELECT 2;''" and execute = demo_execute
        and c = PgConn and db = "[]"]
    by simp
  have r: "execute_sql_file_and_fetch_results demo_execute (Some PgConn) (code_points ''SELECT 1; ; SELECT 2;'') []
       = (Inr [([''?column?''], [[code_points ''1'']]), ([''?column?''], [[code_points ''2'']])],
          [code_points ''SELECT 1'', code_points ''SELECT 2''], [code_points ''SELECT 1'', code_points ''SELECT 2''])"
    by (simp add: runner_defs)
  have u: "statement_batch [97, 160, 59, 160, 59, 98] = [[97], [98]]"
    by (simp add: runner_defs)
  have h: "\<not> is_space (hd (code_points ''SELECT 1''))" "\<not> is_space (last (code_points ''SELECT 2''))"
    by (simp_all add: runner_defs)
  show ?thesis using b r u h by simp
qed

text \<open>
  C2, as stated, fails in its last part: the error that leaves the runner is the
  store's error, to which the runner adds nothing, so it need not tell which
  statement of the script failed. One script, run on two stores, fails at its first
  statement on the one and at its second statement on the other, with the same
  error.
\<close>

theorem same_error_for_two_failing_statements:
  "execute_sql_file_and_fetch_results demo_execute (Some PgConn)
       (code_points ''SELECT 1/a; SELECT 1/b'') [code_points ''SET a = 0'']
     = (Inl (DatabaseError ''division by zero''),
        [code_points ''SET a = 0''], [code_points ''SELECT 1/a''])
   \<and> execute_sql_file_and_fetch_results demo_execute (Some PgConn)
       (code_points ''SELECT 1/a; SELECT 1/b'') [code_points ''SET b = 0'']
     = (Inl (DatabaseError ''division by zero''),
        [code_points ''SET b = 0'', code_points ''SELECT 1/a''], [code_points ''SELECT 1/a'', code_points ''SELECT 1/b''])"
  by (simp add: runner_defs)

text \<open>
  C2, amended. When statement \<open>k\<close> (counted from 0) of the statement batch is the first
  to fail, that is, the statements before it run one after the other from the
  initial store to a store \<open>dbk\<close> on which statement \<open>k\<close> raises \<open>e\<close>, then the runner
  raises exactly \<open>e\<close>, the error of the store, unchanged; the statements it has passed
  to \<open>execute\<close> are the first \<open>k + 1\<close> of the batch, so none after the failing one; and
  the store is left as \<open>dbk\<close>, with the effects of the statements before \<open>k\<close>.
\<close>

theorem fail_fast:
  "k < length (statement_batch script)
   \<and> run_all execute (take k (statement_batch script)) db = Some (dbk, rs)
   \<and> execute (statement_batch script ! k) dbk = Inl e
   \<longrightarrow> execute_sql_file_and_fetch_results execute (Some c) script db
         = (Inl e, dbk, take (Suc k) (statement_batch script))"
  using run_queries_fail[of k "split_on 59 script" execute db dbk rs e "[]" "[]"]
  by (simp add: execute_sql_file_and_fetch_results_def statement_batch_def)

theorem fail_fast_witness:
  "statement_batch (code_points ''INSERT 1; bad; SELECT 3'')
     = [code_points ''INSERT 1'', code_points ''bad'', code_points ''SELECT 3'']
   \<and> run_all demo_execute (take 1 (statement_batch (code_points ''INSERT 1; bad; SELECT 3''))) []
       = Some ([code_points ''INSERT 1''], [])
   \<and> demo_execute (statement_batch (code_points ''INSERT 1; bad; SELECT 3'') ! 1) [code_points ''INSERT 1'']
       = Inl (DatabaseError ''syntax error at or near bad'')
   \<and> execute_sql_file_and_fetch_results demo_execute (Some PgConn)
        (code_points ''INSERT 1; bad; SELECT 3'') []
       = (Inl (DatabaseError ''syntax error at or near bad''), [code_points ''INSERT 1''],
          [code_points ''INSERT 1'', code_points ''bad''])"
proof -
  have b: "statement_batch (code_points ''INSERT 1; bad; SELECT 3'')
     = [code_points ''INSERT 1'', code_points ''bad'', code_points ''SELECT 3'']"
    by (simp add: runner_defs)
  have r: "run_all demo_execute [code_points ''INSERT 1''] [] = Some ([code_points ''INSERT 1''], [])"
    by (simp add: runner_defs)
  have f: "demo_execute (code_points ''bad'') [code_points ''INSERT 1'']
       = Inl (DatabaseError ''syntax error at or near bad'')"
    by (simp add: runner_defs)
  show ?thesis
    using fail_fast[where k = 1 and script = "code_points ''INSERT 1; bad; SELECT 3''"
        and execute = demo_execute and db = "[]" and dbk = "[code_points ''INSERT 1'']" and rs = "[]"
        and e = "DatabaseError ''syntax error at or near bad''" and c = PgConn] b r f
    by simp
qed

section \<open>Properties of the normalization\<close>

lemmas parse_defs = strptime_def span_digits_def month_token_def day_token_def hour_token_def
  minute_token_def read_day_def is_digit_def is_blank_def is_space_def days_in_month_def
  leap_year_def
  in_ns_bounds_def dt_key_def

subsection \<open>Digits\<close>

lemma digit_char_cases:
  assumes "k < 10"
  shows "k = 0 \<or> k = 1 \<or> k = 2 \<or> k = 3 \<or> k = 4 \<or> k = 5 \<or> k = 6 \<or> k = 7 \<or> k = 8 \<or> k = (9::nat)"
  using assms by arith

lemma digit_char_val: "k < 10 \<Longrightarrow> (of_char (digit_char k) :: nat) = 48 + k"
  using digit_char_cases[of k] by (auto simp add: digit_char_def)

lemma digit_char_is_digit: "k < 10 \<Longrightarrow> is_digit (digit_char k)"
  by (simp add: is_digit_def digit_char_val)







lemma str_nat_digits: "\<forall>c \<in> set (str_nat n). is_digit c"
proof (induction n rule: str_nat.induct)
  case (1 n)
  show ?case
  proof (cases "n < 10")
    case True
    then show ?thesis by (subst str_nat.simps) (simp add: digit_char_is_digit)
  next
    case False
    then show ?thesis using 1[OF False] by (subst str_nat.simps) (simp add: digit_char_is_digit)
  qed
qed

lemma str_nat_ne: "str_nat n \<noteq> []"
  by (subst str_nat.simps) simp


subsection \<open>Timestamps\<close>






lemma to_datetime_column_Inr:
  "to_datetime_column vs = Inr xs \<Longrightarrow> list_all2 (\<lambda>v x. to_datetime_strftime v = Inr x) vs xs"
  by (induction vs arbitrary: xs) (auto split: sum.splits)





lemma to_datetime_strftime_example:
  "to_datetime_strftime (Some ''12/1/2010 8:26'') = Inr (Some ''2010-12-01 08:26:00'')"
  by (simp add: to_datetime_strftime_def nat_strings_def parse_defs strftime_def zero_pad_def
        digit_char_def str_nat.simps)

lemma read_retail_dataset_Inr:
  assumes "read_retail_dataset df = Inr res"
  shows "length res = length df \<and>
         (\<forall>i<length df. to_datetime_strftime (raw_InvoiceDate (df ! i)) = Inr (pd_InvoiceDate (res ! i))
                       \<and> pd_CustomerID (res ! i) = normalize_customer_id (raw_CustomerID (df ! i)))"
proof -
  from assms obtain dates where
    d: "to_datetime_column (map raw_InvoiceDate df) = Inr dates" and
    o: "res = map2 normalize_record df dates"
    by (auto simp add: read_retail_dataset_def split: sum.splits)
  have l2: "list_all2 (\<lambda>v x. to_datetime_strftime v = Inr x) (map raw_InvoiceDate df) dates"
    using d by (rule to_datetime_column_Inr)
  then have len: "length dates = length df" by (auto dest: list_all2_lengthD)
  have "to_datetime_strftime (raw_InvoiceDate (df ! i)) = Inr (dates ! i)" if "i < length df" for i
    using list_all2_nthD[OF l2, of i] that by simp
  then show ?thesis using o len by (simp add: normalize_record_def)
qed



lemma select_row_InvoiceDate:
  "map_sum id InvoiceDate (select_row ansi_enabled parse legacy_parse ty r)
     = to_timestamp ansi_enabled parse legacy_parse (csv_InvoiceDate r)"
  by (simp add: select_row_def split: sum.splits)

lemma read_csv_file_Inr:
  "read_csv_file ansi_enabled parse legacy_parse ty rows = Inr frame \<Longrightarrow>
   list_all2 (\<lambda>r x. select_row ansi_enabled parse legacy_parse ty r = Inr x) rows frame"
  by (induction rows arbitrary: frame) (auto split: sum.splits)

lemma read_csv_file_rows:
  assumes "read_csv_file ansi_enabled parse legacy_parse ty rows = Inr frame"
  shows "length frame = length rows \<and>
         (\<forall>i<length rows.
            to_timestamp ansi_enabled parse legacy_parse (csv_InvoiceDate (rows ! i))
              = Inr (InvoiceDate (frame ! i)) \<and>
            CustomerID (frame ! i) = spark_customer_id ty (csv_CustomerID (rows ! i)))"
proof -
  have l2: "list_all2 (\<lambda>r x. select_row ansi_enabled parse legacy_parse ty r = Inr x) rows frame"
    using assms by (rule read_csv_file_Inr)
  then have len: "length frame = length rows" by (auto dest: list_all2_lengthD)
  have "to_timestamp ansi_enabled parse legacy_parse (csv_InvoiceDate (rows ! i))
              = Inr (InvoiceDate (frame ! i)) \<and>
        CustomerID (frame ! i) = spark_customer_id ty (csv_CustomerID (rows ! i))"
    if "i < length rows" for i
  proof -
    have "select_row ansi_enabled parse legacy_parse ty (rows ! i) = Inr (frame ! i)"
      using list_all2_nthD[OF l2 that] .
    then obtain ts where
      t: "to_timestamp ansi_enabled parse legacy_parse (csv_InvoiceDate (rows ! i)) = Inr ts" and
      f: "frame ! i =
            \<lparr>InvoiceNo = csv_InvoiceNo (rows ! i), StockCode = csv_StockCode (rows ! i),
             Description = csv_Description (rows ! i), Quantity = csv_Quantity (rows ! i),
             InvoiceDate = ts, UnitPrice = csv_UnitPrice (rows ! i),
             CustomerID = spark_customer_id ty (csv_CustomerID (rows ! i)),
             Country = csv_Country (rows ! i)\<rparr>"
      by (auto simp add: select_row_def split: sum.splits)
    show ?thesis unfolding f using t by simp
  qed
  then show ?thesis using len by blast
qed

lemma read_csv_file_example:
  "read_csv_file False Map.empty Map.empty DoubleType [sample_csv_row\<lparr>csv_InvoiceDate := None\<rparr>]
     = Inr [\<lparr>InvoiceNo = Some ''536365'', StockCode = Some ''85123A'',
              Description = Some ''WHITE HANGING HEART T-LIGHT HOLDER'', Quantity = Some 6,
              InvoiceDate = None, UnitPrice = Some (255 / 100), CustomerID = Some ''17850.0'',
              Country = Some ''United Kingdom''\<rparr>]"
proof -
  have "\<bar>17850 :: int\<bar> < 2 ^ 53" by simp
  then have "double_to_string (Abs_whole_double 17850) = ''17850.0''"
    by (simp add: double_to_string_def Abs_whole_double_inverse str_int_def digit_char_def
          str_nat.simps)
  then show ?thesis
    by (simp add: select_row_def to_timestamp_def sample_csv_row_def spark_customer_id_def
          fillna_zero_def cast_string_def)
qed




subsection \<open>Customer ids\<close>

lemma str_int_ne: "str_int i \<noteq> []"
  by (simp add: str_int_def str_nat_ne)

lemma str_int_no_point: "CHR ''.'' \<notin> set (str_int i)"
  using str_nat_digits[of "nat i"] str_nat_digits[of "nat (- i)"]
  by (auto simp add: str_int_def is_digit_def)

lemma astype_int_floor: "0 \<le> x \<Longrightarrow> x < 2 ^ 63 \<Longrightarrow> astype_int x = \<lfloor>x\<rfloor>"
proof -
  assume a: "0 \<le> x" "x < 2 ^ 63"
  have "\<lfloor>x\<rfloor> < 2 ^ 63" using a(2) by (simp add: floor_less_iff)
  moreover have "0 \<le> \<lfloor>x\<rfloor>" using a(1) by simp
  ultimately show ?thesis using a(1) by (simp add: astype_int_def Let_def)
qed

lemma astype_int_ceiling: "x < 0 \<Longrightarrow> - (2 ^ 63) \<le> x \<Longrightarrow> astype_int x = \<lceil>x\<rceil>"
proof -
  assume a: "x < 0" "- (2 ^ 63) \<le> x"
  have "- (2 ^ 63) \<le> \<lceil>x\<rceil>" using a(2) by (simp add: le_ceiling_iff)
  moreover have "\<lceil>x\<rceil> \<le> 0" using a(1) by (simp add: ceiling_le_iff)
  ultimately show ?thesis using a(1) by (simp add: astype_int_def Let_def)
qed

lemma astype_int_whole: "- (2 ^ 63) \<le> n \<Longrightarrow> n < 2 ^ 63 \<Longrightarrow> astype_int (of_int n) = n"
  by (simp add: astype_int_def Let_def)

lemma Rep_whole: "\<bar>k\<bar> < 2 ^ 53 \<Longrightarrow> Rep_whole_double (Abs_whole_double k) = k"
  by (simp add: Abs_whole_double_inverse)

lemma double_to_string_small:
  assumes "\<bar>k\<bar> < 10 ^ 7"
  shows "double_to_string (Abs_whole_double k) = str_int k @ ''.0''"
proof -
  have "\<bar>k\<bar> < 2 ^ 53" using assms by simp
  then show ?thesis using assms by (simp add: double_to_string_def Rep_whole)
qed

lemma spark_customer_id_not_null: "spark_customer_id ty v \<noteq> None"
  by (simp add: spark_customer_id_def fillna_zero_def cast_string_def
        split: option.splits spark_type.splits spark_value.splits)

text \<open>
  C5, amended. In analysis.py, the customer id of a record is \<open>0\<close> when the input is
  missing; otherwise the value is truncated towards zero to an integer and printed in
  decimal, so that a whole number in the 64-bit range gives its own digits (12345.0
  gives \<open>12345\<close>); the result is never empty and has no decimal point; and
  \<open>read_retail_dataset\<close> gives every record the customer id of its own input. In
  pipeline.py the value is not taken through an integer: a missing value is filled
  with 0 cast to the column's inferred type and the value is cast to a string as it
  is, so the customer id that \<open>read_csv_file\<close> gives a row is never \<open>NULL\<close>. An
  integer column gives \<open>0\<close> for a missing id and the digits of a present one; a
  double column gives \<open>0.0\<close> for a missing id and the text of the double for a
  present one, which below \<open>10\<^sup>7\<close> is its digits followed by \<open>.0\<close>; a string column
  gives \<open>0\<close> for a missing id and a present text as it is.
\<close>

theorem customer_id_normalization:
  "normalize_customer_id None = ''0''
   \<and> normalize_customer_id (Some 12345) = ''12345''
   \<and> normalize_customer_id v \<noteq> []
   \<and> CHR ''.'' \<notin> set (normalize_customer_id v)
   \<and> (- (2 ^ 63) \<le> n \<and> n < 2 ^ 63 \<longrightarrow> normalize_customer_id (Some (of_int n)) = str_int n)
   \<and> (0 \<le> x \<and> x < 2 ^ 63 \<longrightarrow> normalize_customer_id (Some x) = str_int \<lfloor>x\<rfloor>)
   \<and> (x' < 0 \<and> - (2 ^ 63) \<le> x' \<longrightarrow> normalize_customer_id (Some x') = str_int \<lceil>x'\<rceil>)
   \<and> (read_retail_dataset df = Inr res \<longrightarrow>
        length res = length df \<and>
        (\<forall>i<length df. pd_CustomerID (res ! i) = normalize_customer_id (raw_CustomerID (df ! i))))
   \<and> spark_customer_id ty cell \<noteq> None
   \<and> spark_customer_id IntegerType None = Some ''0''
   \<and> spark_customer_id IntegerType (Some (IntV i)) = Some (str_int i)
   \<and> spark_customer_id DoubleType None = Some ''0.0''
   \<and> spark_customer_id DoubleType (Some (DoubleV wd)) = Some (double_to_string wd)
   \<and> (\<bar>k\<bar> < 10 ^ 7 \<longrightarrow> double_to_string (Abs_whole_double k) = str_int k @ ''.0'')
   \<and> spark_customer_id StringType None = Some ''0''
   \<and> spark_customer_id StringType (Some (StrV txt)) = Some txt
   \<and> (read_csv_file ansi_enabled parse legacy_parse ty rows = Inr frame \<longrightarrow>
        length frame = length rows \<and>
        (\<forall>i<length rows.
           CustomerID (frame ! i) = spark_customer_id ty (csv_CustomerID (rows ! i))))"
proof -
  have a: "normalize_customer_id None = ''0''" "normalize_customer_id (Some 12345) = ''12345''"
    by (simp_all add: normalize_customer_id_def fillna_def astype_int_def str_int_def
          digit_char_def str_nat.simps)
  have b: "normalize_customer_id v \<noteq> []" "CHR ''.'' \<notin> set (normalize_customer_id v)"
    by (simp_all add: normalize_customer_id_def str_int_ne str_int_no_point)
  have p: "(- (2 ^ 63) \<le> n \<and> n < 2 ^ 63 \<longrightarrow> normalize_customer_id (Some (of_int n)) = str_int n)"
    "(0 \<le> x \<and> x < 2 ^ 63 \<longrightarrow> normalize_customer_id (Some x) = str_int \<lfloor>x\<rfloor>)"
    "(x' < 0 \<and> - (2 ^ 63) \<le> x' \<longrightarrow> normalize_customer_id (Some x') = str_int \<lceil>x'\<rceil>)"
    by (simp_all add: normalize_customer_id_def fillna_def astype_int_floor astype_int_ceiling
          astype_int_whole)
  have d: "read_retail_dataset df = Inr res \<longrightarrow>
        length res = length df \<and>
        (\<forall>i<length df. pd_CustomerID (res ! i) = normalize_customer_id (raw_CustomerID (df ! i)))"
    using read_retail_dataset_Inr[of df res] by blast
  have c: "spark_customer_id IntegerType None = Some ''0''"
    "spark_customer_id IntegerType (Some (IntV i)) = Some (str_int i)"
    "spark_customer_id StringType None = Some ''0''"
    "spark_customer_id StringType (Some (StrV txt)) = Some txt"
    "spark_customer_id DoubleType (Some (DoubleV wd)) = Some (double_to_string wd)"
    by (simp_all add: spark_customer_id_def fillna_zero_def cast_string_def str_int_def
          digit_char_def str_nat.simps)
  have z: "spark_customer_id DoubleType None = Some ''0.0''"
    using double_to_string_small[of 0]
    by (simp add: spark_customer_id_def fillna_zero_def cast_string_def str_int_def
          digit_char_def str_nat.simps)
  have s: "\<bar>k\<bar> < 10 ^ 7 \<longrightarrow> double_to_string (Abs_whole_double k) = str_int k @ ''.0''"
    using double_to_string_small[of k] by blast
  have f: "read_csv_file ansi_enabled parse legacy_parse ty rows = Inr frame \<longrightarrow>
        length frame = length rows \<and>
        (\<forall>i<length rows.
           CustomerID (frame ! i) = spark_customer_id ty (csv_CustomerID (rows ! i)))"
    using read_csv_file_rows[of ansi_enabled parse legacy_parse ty rows frame] by blast
  show ?thesis
    by (intro conjI a b p d c z s f spark_customer_id_not_null)
qed

theorem customer_id_normalization_witness:
  "normalize_customer_id (Some (of_int 17850)) = ''17850''
   \<and> normalize_customer_id (Some (7 / 2)) = ''3''
   \<and> normalize_customer_id (Some (- 7 / 2)) = ''-3''
   \<and> map pd_CustomerID
        (projr (read_retail_dataset [sample_raw_record, sample_raw_record\<lparr>raw_CustomerID := None\<rparr>]))
       = [''17850'', ''0'']
   \<and> double_to_string (Abs_whole_double 17850) = ''17850.0''
   \<and> map CustomerID
        (projr (read_csv_file False Map.empty Map.empty DoubleType
                  [sample_csv_row\<lparr>csv_InvoiceDate := None\<rparr>]))
       = [Some ''17850.0'']"
proof -
  have e: "to_datetime_strftime (Some ''12/1/2010 8:26'') = Inr (Some ''2010-12-01 08:26:00'')"
    by (rule to_datetime_strftime_example)
  have d: "read_retail_dataset [sample_raw_record, sample_raw_record\<lparr>raw_CustomerID := None\<rparr>]
       = Inr [normalize_record sample_raw_record (Some ''2010-12-01 08:26:00''),
              normalize_record (sample_raw_record\<lparr>raw_CustomerID := None\<rparr>)
                (Some ''2010-12-01 08:26:00'')]"
    by (simp add: read_retail_dataset_def sample_raw_record_def e)
  have s: "str_int 17850 = ''17850''" "str_int 3 = ''3''" "str_int (- 3) = ''-3''" "str_int 0 = ''0''"
    by (simp_all add: str_int_def digit_char_def str_nat.simps)
  have fl1: "\<lfloor>7 / 2 :: rat\<rfloor> = 3"
    by (rule floor_unique) simp_all
  have fl2: "\<lceil>- 7 / 2 :: rat\<rceil> = - 3"
    by (rule ceiling_unique) simp_all
  note fl = fl1 fl2
  show ?thesis
    using customer_id_normalization[where n = 17850 and x = "7 / 2" and x' = "- 7 / 2"
        and df = "[sample_raw_record, sample_raw_record\<lparr>raw_CustomerID := None\<rparr>]"
        and res = "[normalize_record sample_raw_record (Some ''2010-12-01 08:26:00''),
              normalize_record (sample_raw_record\<lparr>raw_CustomerID := None\<rparr>)
                (Some ''2010-12-01 08:26:00'')]"
        and k = 17850
        and ansi_enabled = False and parse = Map.empty and legacy_parse = Map.empty
        and ty = DoubleType and rows = "[sample_csv_row\<lparr>csv_InvoiceDate := None\<rparr>]"
        and frame = "[\<lparr>InvoiceNo = Some ''536365'', StockCode = Some ''85123A'',
              Description = Some ''WHITE HANGING HEART T-LIGHT HOLDER'', Quantity = Some 6,
              InvoiceDate = None, UnitPrice = Some (255 / 100), CustomerID = Some ''17850.0'',
              Country = Some ''United Kingdom''\<rparr>]"]
      d s fl read_csv_file_example
    by (simp add: normalize_record_def sample_raw_record_def)
qed

text \<open>
  C5, as stated, fails in pipeline.py: on a column inferred as double, 12345.0 gives
  \<open>12345.0\<close> and a missing id gives \<open>0.0\<close>.
\<close>

theorem spark_customer_id_keeps_the_fraction:
  "spark_customer_id DoubleType (Some (DoubleV (Abs_whole_double 12345))) = Some ''12345.0''
   \<and> spark_customer_id DoubleType None = Some ''0.0''"
proof -
  have "double_to_string (Abs_whole_double 12345) = ''12345.0''"
    "double_to_string (Abs_whole_double 0) = ''0.0''"
    using double_to_string_small[of 12345] double_to_string_small[of 0]
    by (simp_all add: str_int_def digit_char_def str_nat.simps)
  then show ?thesis
    by (simp add: spark_customer_id_def fillna_zero_def cast_string_def)
qed

section \<open>Properties of the aggregations\<close>

lemmas agg_defs = group_by_def group_keys_def calculate_transaction_per_day_def to_date_def
  count_distinct_def example_sales_def sale_def dec1_def dec2_def

lemma set_non_null: "set (non_null vs) = {x. Some x \<in> set vs}"
  by (induction vs rule: non_null.induct) auto

lemma distinct_group_keys: "distinct (group_keys key df)"
  by (simp add: group_keys_def)

lemma set_group_keys: "set (group_keys key df) = key ` set df"
  by (simp add: group_keys_def)

lemma group_by_keys: "map fst (group_by key df) = group_keys key df"
  by (simp add: group_by_def comp_def)

lemma group_by_member:
  "(k, g) \<in> set (group_by key df) \<longleftrightarrow> k \<in> key ` set df \<and> g = filter (\<lambda>r. key r = k) df"
  by (auto simp add: group_by_def set_group_keys)

lemma count_distinct_card: "count_distinct vs = card {x. Some x \<in> set vs}"
  by (simp add: count_distinct_def length_remdups_card_conv set_non_null)

lemma transactions_keys:
  "map fst (calculate_transaction_per_day df) = group_keys (\<lambda>r. to_date (InvoiceDate r)) df"
proof -
  have "fst \<circ> agg_total_transactions = fst" by (rule ext) auto
  then show ?thesis
    by (simp add: calculate_transaction_per_day_def group_by_keys[symmetric] del: group_by_keys)
qed

lemma transactions_member:
  assumes "(d, n) \<in> set (calculate_transaction_per_day df)"
  shows "n = card {i. \<exists>r \<in> set df. to_date (InvoiceDate r) = d \<and> InvoiceNo r = Some i}"
proof -
  from assms obtain g where g: "(d, g) \<in> set (group_by (\<lambda>r. to_date (InvoiceDate r)) df)"
    and n: "n = count_distinct (map InvoiceNo g)"
    by (auto simp add: calculate_transaction_per_day_def)
  from g have "g = filter (\<lambda>r. to_date (InvoiceDate r) = d) df"
    by (simp add: group_by_member)
  then have "{x. Some x \<in> set (map InvoiceNo g)}
      = {i. \<exists>r \<in> set df. to_date (InvoiceDate r) = d \<and> InvoiceNo r = Some i}"
    by force
  then show ?thesis using n by (simp add: count_distinct_card)
qed

text \<open>
  C7. \<open>calculate_transaction_per_day\<close> gives one row per calendar date of
  \<open>InvoiceDate\<close> that occurs in the data, and the count of that row is the number of
  different invoice numbers among the records of that date, not the number of
  records: two line items of one invoice on one date count as 1.
\<close>

theorem transactions_per_day_counts_distinct_invoices:
  "distinct (map fst (calculate_transaction_per_day df))
   \<and> set (map fst (calculate_transaction_per_day df)) = (\<lambda>r. to_date (InvoiceDate r)) ` set df
   \<and> (\<forall>(d, n) \<in> set (calculate_transaction_per_day df).
         n = card {i. \<exists>r \<in> set df. to_date (InvoiceDate r) = d \<and> InvoiceNo r = Some i})
   \<and> (to_date (InvoiceDate r1) = to_date (InvoiceDate r2) \<and> InvoiceNo r1 = Some i \<and> InvoiceNo r2 = Some i
        \<longrightarrow> calculate_transaction_per_day [r1, r2] = [(to_date (InvoiceDate r1), 1)])"
proof -
  have a: "distinct (map fst (calculate_transaction_per_day df))"
    by (simp only: transactions_keys distinct_group_keys)
  have b: "set (map fst (calculate_transaction_per_day df)) = (\<lambda>r. to_date (InvoiceDate r)) ` set df"
    by (simp only: transactions_keys set_group_keys)
  have c: "\<forall>(d, n) \<in> set (calculate_transaction_per_day df).
         n = card {i. \<exists>r \<in> set df. to_date (InvoiceDate r) = d \<and> InvoiceNo r = Some i}"
    using transactions_member[of _ _ df] by blast
  have d: "calculate_transaction_per_day [r1, r2] = [(to_date (InvoiceDate r1), 1)]"
    if "to_date (InvoiceDate r1) = to_date (InvoiceDate r2)" "InvoiceNo r1 = Some i" "InvoiceNo r2 = Some i"
    using that by (simp add: calculate_transaction_per_day_def group_by_def group_keys_def count_distinct_def)
  show ?thesis using a b c d by blast
qed

theorem transactions_per_day_witness:
  "calculate_transaction_per_day example_sales = [(Some (2010, 12, 1), 1), (Some (2010, 12, 2), 1)]
   \<and> length (filter (\<lambda>r. to_date (InvoiceDate r) = Some (2010, 12, 1)) example_sales) = 2
   \<and> card {i. \<exists>r \<in> set example_sales.
               to_date (InvoiceDate r) = Some (2010, 12, 1) \<and> InvoiceNo r = Some i} = 1
   \<and> calculate_transaction_per_day (take 2 example_sales) = [(Some (2010, 12, 1), 1)]"
proof -
  have e: "calculate_transaction_per_day example_sales = [(Some (2010, 12, 1), 1), (Some (2010, 12, 2), 1)]"
    by (simp add: agg_defs)
  have f: "length (filter (\<lambda>r. to_date (InvoiceDate r) = Some (2010, 12, 1)) example_sales) = 2"
    by (simp add: agg_defs)
  have g: "calculate_transaction_per_day (take 2 example_sales) = [(Some (2010, 12, 1), 1)]"
    by (simp add: agg_defs)
  have m: "(Some (2010, 12, 1), 1) \<in> set (calculate_transaction_per_day example_sales)"
    unfolding e by simp
  have "\<forall>(d, n) \<in> set (calculate_transaction_per_day example_sales).
         n = card {i. \<exists>r \<in> set example_sales. to_date (InvoiceDate r) = d \<and> InvoiceNo r = Some i}"
    using transactions_per_day_counts_distinct_invoices[of example_sales] by blast
  from bspec[OF this m] have "1 = card {i. \<exists>r \<in> set example_sales.
               to_date (InvoiceDate r) = Some (2010, 12, 1) \<and> InvoiceNo r = Some i}"
    by (simp only: prod.case)
  then have h: "card {i. \<exists>r \<in> set example_sales.
               to_date (InvoiceDate r) = Some (2010, 12, 1) \<and> InvoiceNo r = Some i} = 1"
    by (rule sym)
  show ?thesis by (intro conjI e f h g)
qed

subsection \<open>Sums and ranking\<close>




















end
